theory Spec2Isabelle
  imports Main "HOL-Library.Word" "HOL-Library.Signed_Division"
begin

unbundle bit_operations_syntax

section \<open>Go values shared by the packages\<close>

type_synonym byte = "8 word"

text \<open>
  The sentinel errors that \<open>internal/api/errors.go\<close> uses as map keys. They are declared
  in the packages \<open>downlink/data\<close>, \<open>downlink/proprietary\<close>, \<open>downlink/multicast\<close> and
  \<open>storage\<close>; each is one value, compared by identity.
\<close>

datatype sentinel =
    data_ErrFPortMustNotBeZero
  | data_ErrFPortMustBeZero
  | data_ErrNoLastRXInfoSet
  | data_ErrInvalidDataRate
  | data_ErrMaxPayloadSizeExceeded
  | proprietary_ErrInvalidDataRate
  | multicast_ErrInvalidFCnt
  | storage_ErrAlreadyExists
  | storage_ErrDoesNotExistOrFCntOrMICInvalid
  | storage_ErrDoesNotExist
  | storage_ErrInvalidName
  | storage_ErrInvalidAggregationInterval
  | storage_ErrInvalidFPort

text \<open>
  A non-nil Go \<open>error\<close>: one of the sentinels, any other base error of a comparable
  dynamic type (given by its text), a base error whose dynamic type is not comparable (a
  slice or map type with an \<open>Error\<close> method, or a struct holding one; given by its
  text), or an error wrapped with a message by \<open>errors.Wrap\<close>.
\<close>

datatype error =
    Sentinel sentinel
  | New string
  | Uncomparable string
  | Wrap error string

text \<open>\<open>errors.Cause\<close> of github.com/pkg/errors: unwrap until the error has no cause.\<close>

fun Cause :: "error \<Rightarrow> error" where
  "Cause (Wrap e m) = Cause e"
| "Cause (Sentinel s) = Sentinel s"
| "Cause (New m) = New m"
| "Cause (Uncomparable m) = Uncomparable m"

text \<open>
  Whether an error can be a map key: hashing a value of a dynamic type that is not
  comparable is a run-time panic. The wrapper of \<open>errors.Wrap\<close> is a pointer.
\<close>

fun comparable :: "error \<Rightarrow> bool" where
  "comparable (Uncomparable m) = False"
| "comparable (Sentinel s) = True"
| "comparable (New m) = True"
| "comparable (Wrap e m) = True"

text \<open>
  The \<open>Error()\<close> method. The texts of the sentinels are declared with them, outside the
  sources at hand, so they are a parameter.
\<close>

fun Error :: "(sentinel \<Rightarrow> string) \<Rightarrow> error \<Rightarrow> string" where
  "Error txt (Sentinel s) = txt s"
| "Error txt (New m) = m"
| "Error txt (Uncomparable m) = m"
| "Error txt (Wrap e m) = m @ '': '' @ Error txt e"

text \<open>
  What stops a function: an error it returns, or a run-time panic: an index out of
  range, a method called on a nil interface, or a map lookup with a key whose dynamic
  type cannot be hashed.
\<close>

datatype fault = Err error | IndexOutOfRange | NilDereference | UnhashableKey

section \<open>internal/api/errors.go: the error mapping at the RPC boundary\<close>

datatype code =
    OK | Canceled | Unknown | InvalidArgument | DeadlineExceeded | NotFound
  | AlreadyExists | PermissionDenied | ResourceExhausted | FailedPrecondition
  | Aborted | OutOfRange | Unimplemented | Internal | Unavailable | DataLoss
  | Unauthenticated

text \<open>The map \<open>errToCode\<close>, entry by entry in the order of the source.\<close>

definition errToCode :: "(error \<times> code) list" where
  "errToCode =
    [ (Sentinel data_ErrFPortMustNotBeZero, InvalidArgument),
      (Sentinel data_ErrFPortMustBeZero, InvalidArgument),
      (Sentinel data_ErrNoLastRXInfoSet, FailedPrecondition),
      (Sentinel data_ErrInvalidDataRate, Internal),
      (Sentinel data_ErrMaxPayloadSizeExceeded, InvalidArgument),
      (Sentinel proprietary_ErrInvalidDataRate, Internal),
      (Sentinel multicast_ErrInvalidFCnt, InvalidArgument),
      (Sentinel storage_ErrAlreadyExists, AlreadyExists),
      (Sentinel storage_ErrDoesNotExistOrFCntOrMICInvalid, NotFound),
      (Sentinel storage_ErrDoesNotExist, NotFound),
      (Sentinel storage_ErrInvalidName, InvalidArgument),
      (Sentinel storage_ErrInvalidAggregationInterval, InvalidArgument),
      (Sentinel storage_ErrInvalidFPort, InvalidArgument) ]"

text \<open>
  The status error built by \<open>grpc.Errorf\<close>: its code and the format string it was given
  (the source passes the cause's text as the format, with no arguments).
\<close>

record rpcError =
  Code :: code
  Format :: string

text \<open>
  \<open>errToRPCError\<close>. The argument is a Go \<open>error\<close>, so it may be nil (\<open>None\<close>):
  \<open>errors.Cause\<close> of nil is nil, the lookup misses, and \<open>cause.Error()\<close> panics. The
  map is keyed by the interface \<open>error\<close>, so the lookup \<open>errToCode[cause]\<close> hashes the
  cause and panics when its dynamic type is not comparable.
\<close>

definition errToRPCError :: "(sentinel \<Rightarrow> string) \<Rightarrow> error option \<Rightarrow> fault + rpcError" where
  "errToRPCError txt err =
    (case err of
       None \<Rightarrow> Inl NilDereference
     | Some e \<Rightarrow>
         (let cause = Cause e
          in if \<not> comparable cause then Inl UnhashableKey
             else (let code = (case map_of errToCode cause of
                                 Some c \<Rightarrow> c
                               | None \<Rightarrow> Unknown)
                   in Inr \<lparr> Code = code, Format = Error txt cause \<rparr>)))"

section \<open>The device session (package storage)\<close>

type_synonym EUI64 = "byte list"

text \<open>
  \<open>storage.DeviceSession\<close>, with the fields that the handlers and their tests read or
  write. Go's \<open>int\<close> is modelled by \<open>int\<close>.
\<close>

record DeviceSession =
  DevEUI :: EUI64
  EnabledUplinkChannels :: "int list"
  TXPowerIndex :: int
  MinSupportedTXPowerIndex :: int
  MaxSupportedTXPowerIndex :: int
  NbTrans :: nat
  DR :: int
  PingSlotFrequency :: int
  PingSlotDR :: int

section \<open>The join-accept downlink handler (package join)\<close>

subsection \<open>Data\<close>

text \<open>The decoded PHY payload is only carried along and marshalled: it is kept opaque.\<close>

typedecl PHYPayload

text \<open>
  \<open>gw.UplinkRXInfo\<close> and \<open>gw.UplinkTXInfo\<close>, as far as the handler reads them. A
  \<open>float64\<close> is only copied, so it is kept as its 64 bits.
\<close>

record UplinkRXInfo =
  GatewayId :: "byte list"
  Rssi :: "32 word"
  LoraSnr :: "64 word"
  Board :: "32 word"
  Antenna :: "32 word"
  Context :: "byte list"

record UplinkTXInfo =
  up_Frequency :: "32 word"

record RXPacket =
  TXInfo :: UplinkTXInfo
  RXInfoSet :: "UplinkRXInfo list"
  rx_DR :: int

record DeviceGatewayRXInfo =
  GatewayID :: EUI64
  RSSI :: int
  LoRaSNR :: "64 word"
  dg_Board :: "32 word"
  dg_Antenna :: "32 word"
  dg_Context :: "byte list"

datatype DownlinkTiming = IMMEDIATELY | DELAY | GPS_EPOCH

text \<open>A protobuf duration, and \<open>ptypes.DurationProto\<close> of a \<open>time.Duration\<close> (nanoseconds).\<close>

record Duration =
  Seconds :: int
  Nanos :: int

definition DurationProto :: "int \<Rightarrow> Duration" where
  "DurationProto d =
    \<lparr> Seconds = d sdiv 1000000000, Nanos = d - (d sdiv 1000000000) * 1000000000 \<rparr>"

datatype TimingInfo =
    NoTimingInfo
  | DelayTimingInfo Duration
  | ImmediatelyTimingInfo
  | GPSEpochTimingInfo Duration

text \<open>The data rate of a transmission: LoRa (spreading factor, bandwidth) or FSK (bitrate).\<close>

datatype Modulation = LoRa nat nat | FSK nat

record DownlinkTXInfo =
  tx_GatewayId :: "byte list"
  tx_Board :: "32 word"
  tx_Antenna :: "32 word"
  tx_Context :: "byte list"
  Frequency :: "32 word"
  Power :: "32 word"
  ModulationInfo :: "Modulation option"
  Timing :: DownlinkTiming
  TimingInfo :: TimingInfo

record DownlinkFrame =
  PhyPayload :: "byte list"
  TxInfo :: "DownlinkTXInfo option"
  Token :: "32 word"
  DownlinkId :: "byte list"

text \<open>
  What \<open>ctx.Value(logging.ContextIDKey)\<close> gives: nothing, a \<open>uuid.UUID\<close> (16 bytes), or
  a value of another type.
\<close>

datatype ctxValue = NoValue | UUIDValue "byte list" | OtherValue

record joinContext =
  ctx :: ctxValue
  jc_Token :: "16 word"
  jc_DeviceSession :: DeviceSession
  DeviceGatewayRXInfo :: "DeviceGatewayRXInfo list"
  jc_RXPacket :: RXPacket
  jc_PHYPayload :: PHYPayload
  DownlinkFrames :: "DownlinkFrame list"

text \<open>The package variables that \<open>Setup\<close> sets from the configuration.\<close>

record NetworkSettings =
  RXWindow :: int
  DownlinkTXPower :: int

record joinVars =
  rxWindow :: int
  downlinkTXPower :: int

definition join_Setup :: "NetworkSettings \<Rightarrow> joinVars" where
  "join_Setup nsConfig = \<lparr> rxWindow = RXWindow nsConfig, downlinkTXPower = DownlinkTXPower nsConfig \<rparr>"

text \<open>
  The collaborators, which are not among the sources, are parameters: the band plan
  (\<open>band.Band()\<close> and its defaults), the helpers, the marshalling of the PHY payload, the
  gateway backend, the frame log and the store of the remaining frames.
\<close>

record env =
  GetGatewayID :: "UplinkRXInfo \<Rightarrow> EUI64"
  GetRX1DataRateIndex :: "int \<Rightarrow> int \<Rightarrow> error + int"
  GetRX1FrequencyForUplinkFrequency :: "int \<Rightarrow> error + int"
  GetDownlinkTXPower :: "int \<Rightarrow> int"
  RX2Frequency :: int
  RX2DataRate :: int
  JoinAcceptDelay1 :: int
  JoinAcceptDelay2 :: int
  SetDownlinkTXInfoDataRate :: "DownlinkTXInfo \<Rightarrow> int \<Rightarrow> error + DownlinkTXInfo"
  MarshalBinary :: "PHYPayload \<Rightarrow> error + byte list"
  SendTXPacket :: "DownlinkFrame \<Rightarrow> error option"
  LogDownlinkFrameForGateway :: "DownlinkFrame \<Rightarrow> error option"
  LogDownlinkFrameForDevEUI :: "EUI64 \<Rightarrow> DownlinkFrame \<Rightarrow> error option"
  SaveDownlinkFrames :: "EUI64 \<Rightarrow> DownlinkFrame list \<Rightarrow> error option"

text \<open>
  The world outside the handler: the bytes that \<open>crypto/rand\<close> will deliver next, the
  frames handed to the gateway backend, the frames written to the two frame logs and the
  frame lists saved in the store.
\<close>

record world =
  entropy :: "byte list"
  txPackets :: "DownlinkFrame list"
  gatewayFrameLog :: "DownlinkFrame list"
  deviceFrameLog :: "(EUI64 \<times> DownlinkFrame) list"
  savedFrames :: "(EUI64 \<times> DownlinkFrame list) list"

text \<open>
  \<open>rand.Read(b)\<close> for a buffer of \<open>n\<close> bytes: the next \<open>n\<close> bytes of the source, or an
  error when the source cannot deliver them.
\<close>

definition rand_Read :: "nat \<Rightarrow> world \<Rightarrow> (error + byte list) \<times> world" where
  "rand_Read n w =
    (if length (entropy w) < n then (Inl (New ''crypto/rand: read failed''), w)
     else (Inr (take n (entropy w)), w\<lparr>entropy := drop n (entropy w)\<rparr>))"

text \<open>\<open>binary.BigEndian.Uint16\<close> of a two-byte buffer.\<close>

definition BigEndian_Uint16 :: "byte list \<Rightarrow> 16 word" where
  "BigEndian_Uint16 b = (push_bit 8 (ucast (b ! 0)) OR ucast (b ! 1))"

subsection \<open>The tasks\<close>

text \<open>
  A task works on the join context through a pointer, so what it has written stays
  written when it returns an error: a task gives back its fault (if any), the context and
  the world.
\<close>

type_synonym task = "joinContext \<Rightarrow> world \<Rightarrow> fault option \<times> joinContext \<times> world"

definition setDeviceGatewayRXInfo :: "env \<Rightarrow> task" where
  "setDeviceGatewayRXInfo E c w =
    (let c1 = foldl (\<lambda>c' r. c'\<lparr>DeviceGatewayRXInfo := DeviceGatewayRXInfo c' @
                 [\<lparr> GatewayID = GetGatewayID E r,
                    RSSI = sint (Rssi r),
                    LoRaSNR = LoraSnr r,
                    dg_Board = Board r,
                    dg_Antenna = Antenna r,
                    dg_Context = Context r \<rparr>]\<rparr>)
               c (RXInfoSet (jc_RXPacket c))
     in if length (DeviceGatewayRXInfo c1) = 0
        then (Some (Err (New ''DeviceGatewayRXInfo is empty!'')), c1, w)
        else (None, c1, w))"

text \<open>The power of a candidate: the configured one unless it is \<open>-1\<close>, as \<open>int32\<close>.\<close>

definition txPower :: "env \<Rightarrow> joinVars \<Rightarrow> DownlinkTXInfo \<Rightarrow> 32 word" where
  "txPower E V txInfo =
    (if downlinkTXPower V \<noteq> -1 then word_of_int (downlinkTXPower V)
     else word_of_int (GetDownlinkTXPower E (uint (Frequency txInfo))))"

definition setTXInfoForRX1 :: "env \<Rightarrow> joinVars \<Rightarrow> joinContext \<Rightarrow> fault option \<times> joinContext" where
  "setTXInfoForRX1 E V c =
    (case DeviceGatewayRXInfo c of
       [] \<Rightarrow> (Some IndexOutOfRange, c)
     | rxInfo # _ \<Rightarrow>
        (let txInfo = \<lparr> tx_GatewayId = GatewayID rxInfo,
                        tx_Board = dg_Board rxInfo,
                        tx_Antenna = dg_Antenna rxInfo,
                        tx_Context = dg_Context rxInfo,
                        Frequency = 0, Power = 0, ModulationInfo = None,
                        Timing = IMMEDIATELY, TimingInfo = NoTimingInfo \<rparr>
         in case GetRX1DataRateIndex E (rx_DR (jc_RXPacket c)) 0 of
              Inl err \<Rightarrow> (Some (Err (Wrap err ''get rx1 data-rate index error'')), c)
            | Inr rx1DR \<Rightarrow>
               (case SetDownlinkTXInfoDataRate E txInfo rx1DR of
                  Inl err \<Rightarrow> (Some (Err (Wrap err ''set downlink tx-info data-rate error'')), c)
                | Inr txInfo1 \<Rightarrow>
                   (case GetRX1FrequencyForUplinkFrequency E
                           (uint (up_Frequency (TXInfo (jc_RXPacket c)))) of
                      Inl err \<Rightarrow> (Some (Err (Wrap err ''get rx1 frequency error'')), c)
                    | Inr freq \<Rightarrow>
                       (let txInfo2 = txInfo1\<lparr>Frequency := word_of_int freq\<rparr>;
                            txInfo3 = txInfo2\<lparr>Power := txPower E V txInfo2\<rparr>;
                            txInfo4 = txInfo3\<lparr>Timing := DELAY,
                                        TimingInfo := DelayTimingInfo
                                          (DurationProto (JoinAcceptDelay1 E))\<rparr>
                        in (None, c\<lparr>DownlinkFrames := DownlinkFrames c @
                               [\<lparr> PhyPayload = [], TxInfo = Some txInfo4,
                                  Token = 0, DownlinkId = [] \<rparr>]\<rparr>))))))"

definition setTXInfoForRX2 :: "env \<Rightarrow> joinVars \<Rightarrow> joinContext \<Rightarrow> fault option \<times> joinContext" where
  "setTXInfoForRX2 E V c =
    (case DeviceGatewayRXInfo c of
       [] \<Rightarrow> (Some IndexOutOfRange, c)
     | rxInfo # _ \<Rightarrow>
        (let txInfo = \<lparr> tx_GatewayId = GatewayID rxInfo,
                        tx_Board = dg_Board rxInfo,
                        tx_Antenna = dg_Antenna rxInfo,
                        tx_Context = dg_Context rxInfo,
                        Frequency = word_of_int (RX2Frequency E),
                        Power = 0, ModulationInfo = None,
                        Timing = IMMEDIATELY, TimingInfo = NoTimingInfo \<rparr>
         in case SetDownlinkTXInfoDataRate E txInfo (RX2DataRate E) of
              Inl err \<Rightarrow> (Some (Err (Wrap err ''set downlink tx-info data-rate error'')), c)
            | Inr txInfo1 \<Rightarrow>
               (let txInfo2 = txInfo1\<lparr>Power := txPower E V txInfo1\<rparr>;
                    txInfo3 = txInfo2\<lparr>Timing := DELAY,
                                TimingInfo := DelayTimingInfo
                                  (DurationProto (JoinAcceptDelay2 E))\<rparr>
                in (None, c\<lparr>DownlinkFrames := DownlinkFrames c @
                       [\<lparr> PhyPayload = [], TxInfo = Some txInfo3,
                          Token = 0, DownlinkId = [] \<rparr>]\<rparr>))))"

definition setTXInfo :: "env \<Rightarrow> joinVars \<Rightarrow> task" where
  "setTXInfo E V c w =
    (case (if rxWindow V = 0 \<or> rxWindow V = 1 then setTXInfoForRX1 E V c else (None, c)) of
       (Some err, c1) \<Rightarrow> (Some err, c1, w)
     | (None, c1) \<Rightarrow>
        (case (if rxWindow V = 0 \<or> rxWindow V = 2 then setTXInfoForRX2 E V c1 else (None, c1)) of
           (Some err, c2) \<Rightarrow> (Some err, c2, w)
         | (None, c2) \<Rightarrow> (None, c2, w)))"

text \<open>The downlink id of \<open>setToken\<close>: the zero UUID unless the context holds a UUID.\<close>

definition downID :: "ctxValue \<Rightarrow> byte list" where
  "downID v = (case v of UUIDValue u \<Rightarrow> u | _ \<Rightarrow> replicate 16 0)"

definition setToken :: task where
  "setToken c w =
    (case rand_Read 2 w of
       (Inl err, w1) \<Rightarrow> (Some (Err (Wrap err ''read random error'')), c, w1)
     | (Inr b, w1) \<Rightarrow>
        (None,
         c\<lparr>DownlinkFrames :=
             map (\<lambda>f. f\<lparr>Token := ucast (BigEndian_Uint16 b), DownlinkId := downID (ctx c)\<rparr>)
                 (DownlinkFrames c)\<rparr>,
         w1))"

definition setDownlinkFrame :: "env \<Rightarrow> task" where
  "setDownlinkFrame E c w =
    (case MarshalBinary E (jc_PHYPayload c) of
       Inl err \<Rightarrow> (Some (Err (Wrap err ''marshal phypayload error'')), c, w)
     | Inr phyB \<Rightarrow>
        (None, c\<lparr>DownlinkFrames := map (\<lambda>f. f\<lparr>PhyPayload := phyB\<rparr>) (DownlinkFrames c)\<rparr>, w))"

definition sendJoinAcceptResponse :: "env \<Rightarrow> task" where
  "sendJoinAcceptResponse E c w =
    (case DownlinkFrames c of
       [] \<Rightarrow> (None, c, w)
     | f # _ \<Rightarrow>
        (let w1 = w\<lparr>txPackets := txPackets w @ [f]\<rparr>
         in case SendTXPacket E f of
              Some err \<Rightarrow> (Some (Err (Wrap err ''send downlink frame error'')), c, w1)
            | None \<Rightarrow>
               (let w2 = (case LogDownlinkFrameForGateway E f of
                            Some err \<Rightarrow> w1
                          | None \<Rightarrow> w1\<lparr>gatewayFrameLog := gatewayFrameLog w1 @ [f]\<rparr>);
                    dev = DevEUI (jc_DeviceSession c);
                    w3 = (case LogDownlinkFrameForDevEUI E dev f of
                            Some err \<Rightarrow> w2
                          | None \<Rightarrow> w2\<lparr>deviceFrameLog := deviceFrameLog w2 @ [(dev, f)]\<rparr>)
                in (None, c, w3))))"

definition saveRemainingFrames :: "env \<Rightarrow> task" where
  "saveRemainingFrames E c w =
    (if length (DownlinkFrames c) < 2 then (None, c, w)
     else (let dev = DevEUI (jc_DeviceSession c); rest = tl (DownlinkFrames c)
           in case SaveDownlinkFrames E dev rest of
                Some err \<Rightarrow> (Some (Err (Wrap err ''save downlink-frames error'')), c, w)
              | None \<Rightarrow> (None, c, w\<lparr>savedFrames := savedFrames w @ [(dev, rest)]\<rparr>)))"

definition tasks :: "env \<Rightarrow> joinVars \<Rightarrow> task list" where
  "tasks E V =
    [ setDeviceGatewayRXInfo E,
      setTXInfo E V,
      setToken,
      setDownlinkFrame E,
      sendJoinAcceptResponse E,
      saveRemainingFrames E ]"

text \<open>The loop of \<open>Handle\<close> over the tasks: the first fault stops it.\<close>

fun runTasks :: "task list \<Rightarrow> joinContext \<Rightarrow> world \<Rightarrow> fault option \<times> joinContext \<times> world" where
  "runTasks [] c w = (None, c, w)"
| "runTasks (t # ts) c w =
    (case t c w of
       (Some err, c1, w1) \<Rightarrow> (Some err, c1, w1)
     | (None, c1, w1) \<Rightarrow> runTasks ts c1 w1)"

text \<open>
  \<open>Handle\<close> of package join. Besides the error that the Go function returns, the model gives the join
  context as the tasks left it and the world after the call.
\<close>

definition join_Handle ::
  "env \<Rightarrow> joinVars \<Rightarrow> world \<Rightarrow> ctxValue \<Rightarrow> DeviceSession \<Rightarrow> RXPacket \<Rightarrow> PHYPayload
     \<Rightarrow> fault option \<times> joinContext \<times> world" where
  "join_Handle E V w cv ds rxPacket phy =
    runTasks (tasks E V)
      \<lparr> ctx = cv, jc_Token = 0, jc_DeviceSession = ds, DeviceGatewayRXInfo = [],
        jc_RXPacket = rxPacket, jc_PHYPayload = phy, DownlinkFrames = [] \<rparr>
      w"

section \<open>The MAC-command engine (package maccommand)\<close>

text \<open>
  Of this package the sources hold the test \<open>TestHandleDownlink\<close> only: the function
  \<open>Handle\<close> that it calls is not among them. The data below is as the test builds it.
\<close>

datatype CID =
    LinkCheckReq | LinkCheckAns
  | LinkADRReq | LinkADRAns
  | RXParamSetupReq | RXParamSetupAns
  | DevStatusReq | DevStatusAns
  | NewChannelReq | NewChannelAns
  | DeviceTimeReq | DeviceTimeAns
  | PingSlotChannelReq | PingSlotChannelAns
  | RejoinParamSetupReq | RejoinParamSetupAns
  | DeviceModeInd | ResetInd | RekeyInd
  | OtherCID byte

record Redundancy =
  ChMaskCntl :: nat
  NbRep :: nat

record LinkADRReqPayload =
  DataRate :: nat
  TXPower :: nat
  ChMask :: "bool list"
  Redundancy :: Redundancy

record LinkADRAnsPayload =
  ChannelMaskACK :: bool
  DataRateACK :: bool
  PowerACK :: bool

record PingSlotChannelReqPayload =
  ps_Frequency :: nat
  ps_DR :: nat

record PingSlotChannelAnsPayload =
  DataRateOK :: bool
  ChannelFrequencyOK :: bool

datatype MACCommandPayload =
    LinkADRReqPL LinkADRReqPayload
  | LinkADRAnsPL LinkADRAnsPayload
  | PingSlotChannelReqPL PingSlotChannelReqPayload
  | PingSlotChannelAnsPL PingSlotChannelAnsPayload
  | OtherPL

record MACCommand =
  mc_CID :: CID
  Payload :: MACCommandPayload

record MACCommandBlock =
  CID :: CID
  MACCommands :: "MACCommand list"

text \<open>
  What \<open>Handle\<close> gives: the response blocks or the error, and the device session as the
  call left it (the Go function works on the session through a pointer).
\<close>

type_synonym handled = "(error + MACCommandBlock list) \<times> DeviceSession"

type_synonym handler =
  "DeviceSession \<Rightarrow> MACCommandBlock \<Rightarrow> MACCommandBlock option \<Rightarrow> handled"

text \<open>
  The error that the test expects when nothing is pending (\<open>ErrNoPendingCommand\<close> in
  the spec), by its text.
\<close>

definition ErrNoPendingCommand :: error where
  "ErrNoPendingCommand = New ''expected pending mac-command''"

text \<open>
  Modelled from the spec: the set of device-initiated CIDs, which \<open>Handle\<close> accepts with
  no pending block (section 4.2: \<open>DeviceTimeReq\<close>, \<open>LinkCheckReq\<close>, \<open>DeviceModeInd\<close>,
  \<open>ResetInd\<close>, \<open>RekeyInd\<close>, \<open>RejoinParamSetupAns\<close>).
\<close>

definition deviceInitiated :: "CID \<Rightarrow> bool" where
  "deviceInitiated c \<longleftrightarrow>
     c = DeviceTimeReq \<or> c = LinkCheckReq \<or> c = DeviceModeInd \<or> c = ResetInd
     \<or> c = RekeyInd \<or> c = RejoinParamSetupAns"

text \<open>
  Modelled from the spec: the channel set derived from a \<open>ChMask\<close>, which is the list of
  the indices whose bit is set (scenario S1: the mask \<open>[t,t,t]\<close> gives \<open>[0,1,2]\<close>).
\<close>

fun chMaskChannels :: "nat \<Rightarrow> bool list \<Rightarrow> int list" where
  "chMaskChannels i [] = []"
| "chMaskChannels i (b # bs) = (if b then [int i] else []) @ chMaskChannels (Suc i) bs"

text \<open>
  Modelled from the spec: the transition of a \<open>LinkADRAns\<close> on the session, for the
  pending request \<open>req\<close> and the answer \<open>ans\<close> (section 4.2, table of transitions). With
  the power acknowledged, the pending TXPower and NbRep (if positive) are adopted, and
  the ChMask and the DataRate each when it is acknowledged. With the power not
  acknowledged, nothing of the request is adopted and only the bounds of the TX-power
  index move, by the rows of the table: a session at TXPowerIndex \<open>k > 0\<close> gets the
  maximum \<open>k - 1\<close>; a session at TXPowerIndex 0 gets the index 1 and the minimum 1.
  The test \<open>TestHandleDownlink\<close> narrows the second row: its cases 2 and 3 of
  \<open>LinkADRAns\<close> (and scenario S2) both start from TXPowerIndex 0, and the index and the
  minimum become 1 only for the pending TXPower 0 (case 3), while for the pending TXPower
  3 the session keeps them and gets the maximum 2 (case 2). So at TXPowerIndex 0 the
  model decides by the pending TXPower, as the test requires, with the maximum one below
  the pending TXPower as S2 words it. A negative index is outside the rows of the table:
  the session is left as it is.
\<close>

definition linkADRAns :: "DeviceSession \<Rightarrow> LinkADRReqPayload \<Rightarrow> LinkADRAnsPayload \<Rightarrow> DeviceSession" where
  "linkADRAns ds req ans =
    (if PowerACK ans then
       ds\<lparr> EnabledUplinkChannels :=
             (if ChannelMaskACK ans then chMaskChannels 0 (ChMask req)
              else EnabledUplinkChannels ds),
           DR := (if DataRateACK ans then int (DataRate req) else DR ds),
           TXPowerIndex := int (TXPower req),
           NbTrans := (if NbRep (Redundancy req) > 0 then NbRep (Redundancy req)
                       else NbTrans ds) \<rparr>
     else if 0 < TXPowerIndex ds then
       ds\<lparr> MaxSupportedTXPowerIndex := TXPowerIndex ds - 1 \<rparr>
     else if TXPowerIndex ds = 0 then
       (if TXPower req = 0 then
          ds\<lparr> TXPowerIndex := 1, MinSupportedTXPowerIndex := 1 \<rparr>
        else
          ds\<lparr> MaxSupportedTXPowerIndex := int (TXPower req) - 1 \<rparr>)
     else ds)"

text \<open>
  Modelled from the spec: the transition of a \<open>PingSlotChannelAns\<close> (section 4.2: both
  bits set, the frequency and the data rate of the pending request are adopted; any bit
  clear, the session is left as it is).
\<close>

definition pingSlotChannelAns ::
  "DeviceSession \<Rightarrow> PingSlotChannelReqPayload \<Rightarrow> PingSlotChannelAnsPayload \<Rightarrow> DeviceSession" where
  "pingSlotChannelAns ds req ans =
    (if DataRateOK ans \<and> ChannelFrequencyOK ans then
       ds\<lparr> PingSlotFrequency := int (ps_Frequency req), PingSlotDR := int (ps_DR req) \<rparr>
     else ds)"

text \<open>
  Modelled from the spec: \<open>Handle\<close> of package maccommand, which is not among the
  sources (section 4.2, reconciliation protocol). An answer with no pending block fails
  with \<open>ErrNoPendingCommand\<close> and leaves the session alone, unless its CID is
  device-initiated. Otherwise the handler of the CID runs: for \<open>LinkADRAns\<close> and
  \<open>PingSlotChannelAns\<close> on blocks of one command each, as the test builds them, the
  transitions above with no response block. The handlers of the other CIDs, and what
  happens on blocks of another shape, are not described to the letter by the spec: they
  are the parameter \<open>others\<close>.
\<close>

definition maccommand_Handle ::
  "(CID \<Rightarrow> handler) \<Rightarrow> DeviceSession \<Rightarrow> MACCommandBlock \<Rightarrow> MACCommandBlock option \<Rightarrow> handled" where
  "maccommand_Handle others ds block pendingBlock =
    (case pendingBlock of
       None \<Rightarrow>
         (if deviceInitiated (CID block) then others (CID block) ds block None
          else (Inl ErrNoPendingCommand, ds))
     | Some pending \<Rightarrow>
         (case (CID block, map Payload (MACCommands block), map Payload (MACCommands pending)) of
            (LinkADRAns, [LinkADRAnsPL ans], [LinkADRReqPL req]) \<Rightarrow>
              (Inr [], linkADRAns ds req ans)
          | (PingSlotChannelAns, [PingSlotChannelAnsPL ans], [PingSlotChannelReqPL req]) \<Rightarrow>
              (Inr [], pingSlotChannelAns ds req ans)
          | _ \<Rightarrow> others (CID block) ds block (Some pending)))"

section \<open>Notions used to state the properties\<close>

text \<open>The entry that \<open>setDeviceGatewayRXInfo\<close> appends for one element of the RX-info set.\<close>

definition rxInfoOf :: "env \<Rightarrow> UplinkRXInfo \<Rightarrow> DeviceGatewayRXInfo" where
  "rxInfoOf E r = \<lparr> GatewayID = GetGatewayID E r, RSSI = sint (Rssi r), LoRaSNR = LoraSnr r,
      dg_Board = Board r, dg_Antenna = Antenna r, dg_Context = Context r \<rparr>"

text \<open>The frame that \<open>setTXInfoForRX1\<close> and \<open>setTXInfoForRX2\<close> append for a TX-info.\<close>

definition candidate :: "DownlinkTXInfo \<Rightarrow> DownlinkFrame" where
  "candidate t = \<lparr> PhyPayload = [], TxInfo = Some t, Token = 0, DownlinkId = [] \<rparr>"

text \<open>
  What is known of the TX-info built by \<open>setTXInfoForRX1\<close>: its frequency is the RX1
  frequency of the band plan for the uplink frequency, its power is \<open>txPower\<close>, and its
  timing is DELAY by \<open>JoinAcceptDelay1\<close>.
\<close>

definition isRX1 :: "env \<Rightarrow> joinVars \<Rightarrow> RXPacket \<Rightarrow> DownlinkTXInfo \<Rightarrow> bool" where
  "isRX1 E V rx t \<longleftrightarrow>
     (\<exists>freq. GetRX1FrequencyForUplinkFrequency E (uint (up_Frequency (TXInfo rx))) = Inr freq
        \<and> Frequency t = word_of_int freq)
     \<and> Power t = txPower E V t
     \<and> Timing t = DELAY
     \<and> TimingInfo t = DelayTimingInfo (DurationProto (JoinAcceptDelay1 E))"

text \<open>
  What is known of the TX-info built by \<open>setTXInfoForRX2\<close>. Its frequency is set before
  the helper \<open>SetDownlinkTXInfoDataRate\<close> runs on it, so it is the RX2 frequency of the
  band plan provided that the helper leaves the frequency alone.
\<close>

definition isRX2 :: "env \<Rightarrow> joinVars \<Rightarrow> DownlinkTXInfo \<Rightarrow> bool" where
  "isRX2 E V t \<longleftrightarrow>
     ((\<forall>t0 dr t1. SetDownlinkTXInfoDataRate E t0 dr = Inr t1 \<longrightarrow> Frequency t1 = Frequency t0)
        \<longrightarrow> Frequency t = word_of_int (RX2Frequency E))
     \<and> Power t = txPower E V t
     \<and> Timing t = DELAY
     \<and> TimingInfo t = DelayTimingInfo (DurationProto (JoinAcceptDelay2 E))"

text \<open>
  The spec's wording of the token assignment, "each candidate gets a freshly drawn 16-bit
  random token": candidate \<open>i\<close> of \<open>n\<close> carries the \<open>i\<close>-th two-byte draw from the random
  source.
\<close>

definition spec_freshTokens :: "byte list \<Rightarrow> nat \<Rightarrow> 32 word list" where
  "spec_freshTokens bs n =
     map (\<lambda>i. ucast (BigEndian_Uint16 (take 2 (drop (2 * i) bs)))) [0..<n]"

section \<open>Concrete inputs\<close>

text \<open>A text for the sentinel errors, whose own texts are declared outside the sources.\<close>

definition exampleText :: "sentinel \<Rightarrow> string" where
  "exampleText s = ''sentinel error''"

text \<open>
  The values of \<open>TestHandleDownlink\<close>: the sessions of the two test tables, the pending
  \<open>LinkADRReq\<close> with TXPower \<open>p\<close>, the answer with PowerACK \<open>p\<close>, and a block of one
  command as the test builds it. \<open>ChMask{true, true, true}\<close> is an array of 16 flags.
\<close>

definition testSession :: DeviceSession where
  "testSession =
    \<lparr> DevEUI = replicate 8 0, EnabledUplinkChannels = [0, 1], TXPowerIndex = 0,
      MinSupportedTXPowerIndex = 0, MaxSupportedTXPowerIndex = 0, NbTrans = 0, DR = 0,
      PingSlotFrequency = 0, PingSlotDR = 0 \<rparr>"

definition testPingSession :: DeviceSession where
  "testPingSession =
    \<lparr> DevEUI = replicate 8 0, EnabledUplinkChannels = [], TXPowerIndex = 0,
      MinSupportedTXPowerIndex = 0, MaxSupportedTXPowerIndex = 0, NbTrans = 0, DR = 0,
      PingSlotFrequency = 868100000, PingSlotDR = 3 \<rparr>"

definition testLinkADRReq :: "nat \<Rightarrow> LinkADRReqPayload" where
  "testLinkADRReq p =
    \<lparr> DataRate = 5, TXPower = p,
      ChMask = [True, True, True, False, False, False, False, False,
                False, False, False, False, False, False, False, False],
      Redundancy = \<lparr> ChMaskCntl = 0, NbRep = 2 \<rparr> \<rparr>"

definition testLinkADRAns :: "bool \<Rightarrow> LinkADRAnsPayload" where
  "testLinkADRAns p = \<lparr> ChannelMaskACK = True, DataRateACK = True, PowerACK = p \<rparr>"

definition testBlock :: "CID \<Rightarrow> MACCommandPayload \<Rightarrow> MACCommandBlock" where
  "testBlock c pl = \<lparr> CID = c, MACCommands = [\<lparr> mc_CID = c, Payload = pl \<rparr>] \<rparr>"

text \<open>A stand-in for the handlers that the model leaves open: it answers nothing.\<close>

definition testOthers :: "CID \<Rightarrow> handler" where
  "testOthers c ds block pendingBlock = (Inr [], ds)"

text \<open>
  A join-accept run: a band plan with the EU868 defaults (RX1 on the uplink frequency,
  RX2 on 869.525 MHz, join-accept delays of 5 s and 6 s, 14 dBm), collaborators that
  succeed, a random source holding the bytes 12 34 56 78 (hexadecimal), and an uplink
  on 868.1 MHz heard by one gateway.
\<close>

definition exampleEnv :: env where
  "exampleEnv =
    \<lparr> GetGatewayID = GatewayId,
      GetRX1DataRateIndex = (\<lambda>dr off. Inr dr),
      GetRX1FrequencyForUplinkFrequency = (\<lambda>f. Inr f),
      GetDownlinkTXPower = (\<lambda>f. 14),
      RX2Frequency = 869525000,
      RX2DataRate = 0,
      JoinAcceptDelay1 = 5000000000,
      JoinAcceptDelay2 = 6000000000,
      SetDownlinkTXInfoDataRate =
        (\<lambda>t dr. Inr (t\<lparr>ModulationInfo := Some (LoRa (12 - nat dr) 125)\<rparr>)),
      MarshalBinary = (\<lambda>p. Inr [32]),
      SendTXPacket = (\<lambda>f. None),
      LogDownlinkFrameForGateway = (\<lambda>f. None),
      LogDownlinkFrameForDevEUI = (\<lambda>d f. None),
      SaveDownlinkFrames = (\<lambda>d fs. None) \<rparr>"

definition exampleWorld :: world where
  "exampleWorld =
    \<lparr> entropy = [18, 52, 86, 120], txPackets = [], gatewayFrameLog = [],
      deviceFrameLog = [], savedFrames = [] \<rparr>"

definition exampleSession :: DeviceSession where
  "exampleSession =
    \<lparr> DevEUI = [1, 2, 3, 4, 5, 6, 7, 8], EnabledUplinkChannels = [0, 1], TXPowerIndex = 0,
      MinSupportedTXPowerIndex = 0, MaxSupportedTXPowerIndex = 0, NbTrans = 0, DR = 0,
      PingSlotFrequency = 0, PingSlotDR = 0 \<rparr>"

definition exampleRXPacket :: RXPacket where
  "exampleRXPacket =
    \<lparr> TXInfo = \<lparr> up_Frequency = 868100000 \<rparr>,
      RXInfoSet = [\<lparr> GatewayId = [1, 1, 1, 1, 1, 1, 1, 1], Rssi = - 60, LoraSnr = 0,
                     Board = 0, Antenna = 0, Context = [7] \<rparr>],
      rx_DR = 5 \<rparr>"

text \<open>The run with \<open>RXWindow = rxw\<close> and \<open>DownlinkTXPower = pw\<close> configured.\<close>

definition exampleRun :: "int \<Rightarrow> int \<Rightarrow> fault option \<times> joinContext \<times> world" where
  "exampleRun rxw pw =
     join_Handle exampleEnv (join_Setup \<lparr> RXWindow = rxw, DownlinkTXPower = pw \<rparr>) exampleWorld
       (UUIDValue (replicate 16 9)) exampleSession exampleRXPacket undefined"

section \<open>Theorems: the error mapping\<close>

lemma Cause_not_Wrap: "Cause e \<noteq> Wrap e' m"
  by (induction e) simp_all

text \<open>
  C9 as stated fails: an error whose cause has a dynamic type that is not comparable is
  outside the taxonomy, and \<open>errToRPCError\<close> does not return a status with the code
  Unknown for it: the map lookup panics.
\<close>

theorem errToRPCError_code_by_cause_counterexample:
  "map_of errToCode (Cause (Wrap (Uncomparable ''many errors'') ''save'')) = None
   \<and> errToRPCError exampleText (Some (Wrap (Uncomparable ''many errors'') ''save''))
       = Inl UnhashableKey
   \<and> errToRPCError exampleText (Some (Wrap (Uncomparable ''many errors'') ''save''))
       \<noteq> Inr \<lparr> Code = Unknown, Format = ''many errors'' \<rparr>"
  by (simp add: errToRPCError_def errToCode_def)

text \<open>
  C9, amended. For every (non-nil) error value whose cause has a comparable dynamic
  type, \<open>errToRPCError\<close> returns a status whose code is fixed by the cause of the error:
  InvalidArgument for the two FPort-zero errors, the invalid-FPort, invalid-FCnt,
  oversize-payload, invalid-name and invalid-aggregation-interval errors;
  FailedPrecondition for the no-last-RX-info error; Internal for the two
  unknown-data-rate errors; AlreadyExists for the already-exists error; NotFound for the
  does-not-exist and the FCnt-or-MIC errors; Unknown for every other cause. The text of
  the status is the text of the cause.
\<close>

theorem errToRPCError_code_by_cause:
  assumes "comparable (Cause e)"
  shows "errToRPCError txt (Some e) =
    Inr \<lparr> Code =
      (if Cause e \<in> {Sentinel data_ErrFPortMustNotBeZero, Sentinel data_ErrFPortMustBeZero,
                      Sentinel storage_ErrInvalidFPort, Sentinel multicast_ErrInvalidFCnt,
                      Sentinel data_ErrMaxPayloadSizeExceeded, Sentinel storage_ErrInvalidName,
                      Sentinel storage_ErrInvalidAggregationInterval}
         then InvalidArgument
       else if Cause e = Sentinel data_ErrNoLastRXInfoSet then FailedPrecondition
       else if Cause e \<in> {Sentinel data_ErrInvalidDataRate, Sentinel proprietary_ErrInvalidDataRate}
         then Internal
       else if Cause e = Sentinel storage_ErrAlreadyExists then AlreadyExists
       else if Cause e \<in> {Sentinel storage_ErrDoesNotExist,
                           Sentinel storage_ErrDoesNotExistOrFCntOrMICInvalid}
         then NotFound
       else Unknown),
      Format = Error txt (Cause e) \<rparr>"
proof (cases "Cause e")
  case (Sentinel s)
  then show ?thesis
    by (cases s) (simp_all add: errToRPCError_def errToCode_def)
next
  case (New m)
  then show ?thesis
    by (simp add: errToRPCError_def errToCode_def)
next
  case (Uncomparable m)
  with assms show ?thesis by simp
next
  case (Wrap e' m)
  then show ?thesis using Cause_not_Wrap by blast
qed

text \<open>
  Three errors with comparable causes: a wrapped does-not-exist error (NotFound), the
  bare no-last-RX-info error (FailedPrecondition) and a wrapped error outside the
  taxonomy (Unknown).
\<close>

theorem errToRPCError_code_by_cause_witness:
  "errToRPCError exampleText (Some (Wrap (Sentinel storage_ErrDoesNotExist) ''get session''))
     = Inr \<lparr> Code = NotFound, Format = ''sentinel error'' \<rparr>
   \<and> errToRPCError exampleText (Some (Sentinel data_ErrNoLastRXInfoSet))
     = Inr \<lparr> Code = FailedPrecondition, Format = ''sentinel error'' \<rparr>
   \<and> errToRPCError exampleText (Some (Wrap (New ''connection refused'') ''dial''))
     = Inr \<lparr> Code = Unknown, Format = ''connection refused'' \<rparr>"
  using errToRPCError_code_by_cause
      [of "Wrap (Sentinel storage_ErrDoesNotExist) ''get session''" exampleText]
    errToRPCError_code_by_cause [of "Sentinel data_ErrNoLastRXInfoSet" exampleText]
    errToRPCError_code_by_cause [of "Wrap (New ''connection refused'') ''dial''" exampleText]
  by (simp add: exampleText_def)

section \<open>Theorems: the MAC-command engine\<close>

lemmas test_defs = testSession_def testPingSession_def testLinkADRReq_def testLinkADRAns_def
  testBlock_def testOthers_def

text \<open>
  C1. For every device session, a pending block holding a \<open>LinkADRReq\<close> and an incoming
  \<open>LinkADRAns\<close> whose ChannelMaskACK, DataRateACK and PowerACK are all true, \<open>Handle\<close>
  returns no error and zero response blocks, and in the session it leaves
  EnabledUplinkChannels is the channel set derived from the pending ChMask, DR is the
  pending DataRate, TXPowerIndex is the pending TXPower, and NbTrans is the pending NbRep
  when NbRep is positive.
\<close>

theorem maccommand_Handle_LinkADRAns_ack:
  assumes "CID block = LinkADRAns"
    and "map Payload (MACCommands block) = [LinkADRAnsPL ans]"
    and "map Payload (MACCommands pending) = [LinkADRReqPL req]"
    and "ChannelMaskACK ans" and "DataRateACK ans" and "PowerACK ans"
  shows "\<exists>ds'. maccommand_Handle others ds block (Some pending) = (Inr [], ds')
           \<and> EnabledUplinkChannels ds' = chMaskChannels 0 (ChMask req)
           \<and> DR ds' = int (DataRate req)
           \<and> TXPowerIndex ds' = int (TXPower req)
           \<and> (0 < NbRep (Redundancy req) \<longrightarrow> NbTrans ds' = NbRep (Redundancy req))"
  using assms by (simp add: maccommand_Handle_def linkADRAns_def)

text \<open>
  The instance of C1 in the test (case 1 of \<open>LinkADRAns\<close>, scenario S1): the session with
  channels \<open>[0, 1]\<close> ends with the channels \<open>[0, 1, 2]\<close>, TXPowerIndex 3, NbTrans 2 and DR 5.
\<close>

theorem maccommand_Handle_LinkADRAns_ack_witness:
  "maccommand_Handle testOthers testSession
      (testBlock LinkADRAns (LinkADRAnsPL (testLinkADRAns True)))
      (Some (testBlock LinkADRReq (LinkADRReqPL (testLinkADRReq 3))))
    = (Inr [], testSession\<lparr> EnabledUplinkChannels := [0, 1, 2], TXPowerIndex := 3,
                             NbTrans := 2, DR := 5 \<rparr>)"
proof -
  from maccommand_Handle_LinkADRAns_ack
    [of "testBlock LinkADRAns (LinkADRAnsPL (testLinkADRAns True))" "testLinkADRAns True"
      "testBlock LinkADRReq (LinkADRReqPL (testLinkADRReq 3))" "testLinkADRReq 3"
      testOthers testSession]
  obtain ds' where
    h: "maccommand_Handle testOthers testSession
      (testBlock LinkADRAns (LinkADRAnsPL (testLinkADRAns True)))
      (Some (testBlock LinkADRReq (LinkADRReqPL (testLinkADRReq 3)))) = (Inr [], ds')"
    by (auto simp: test_defs)
  then show ?thesis
    by (simp add: maccommand_Handle_def linkADRAns_def test_defs)
qed

text \<open>
  C2. For every answer block whose CID is not one of the device-initiated CIDs
  (DeviceTimeReq, LinkCheckReq, DeviceModeInd, ResetInd, RekeyInd, RejoinParamSetupAns)
  and for which there is no pending block, \<open>Handle\<close> returns the error "expected pending
  mac-command" and leaves the device session as it was.
\<close>

theorem maccommand_Handle_no_pending:
  assumes "CID block \<notin> {DeviceTimeReq, LinkCheckReq, DeviceModeInd, ResetInd, RekeyInd,
                          RejoinParamSetupAns}"
  shows "maccommand_Handle others ds block None
           = (Inl (New ''expected pending mac-command''), ds)"
  using assms by (simp add: maccommand_Handle_def deviceInitiated_def ErrNoPendingCommand_def)

text \<open>
  The instances of C2 in the test: the last case of the \<open>LinkADRAns\<close> table and the last
  case of the \<open>PingSlotChannelAns\<close> table.
\<close>

theorem maccommand_Handle_no_pending_witness:
  "maccommand_Handle testOthers testSession
      (testBlock LinkADRAns (LinkADRAnsPL (testLinkADRAns True))) None
    = (Inl (New ''expected pending mac-command''), testSession)
   \<and> maccommand_Handle testOthers testPingSession
      (testBlock PingSlotChannelAns
         (PingSlotChannelAnsPL \<lparr> DataRateOK = False, ChannelFrequencyOK = True \<rparr>)) None
    = (Inl (New ''expected pending mac-command''), testPingSession)"
  using maccommand_Handle_no_pending
      [of "testBlock LinkADRAns (LinkADRAnsPL (testLinkADRAns True))" testOthers testSession]
    maccommand_Handle_no_pending
      [of "testBlock PingSlotChannelAns
         (PingSlotChannelAnsPL \<lparr> DataRateOK = False, ChannelFrequencyOK = True \<rparr>)"
        testOthers testPingSession]
  by (simp add: testBlock_def)

text \<open>
  C3. For every device session whose TXPowerIndex is \<open>k > 0\<close>, a pending block holding a
  \<open>LinkADRReq\<close> and an incoming \<open>LinkADRAns\<close> whose PowerACK is false, \<open>Handle\<close> returns
  no error and leaves the session with MaxSupportedTXPowerIndex \<open>k - 1\<close> and everything
  else, TXPowerIndex included, unchanged.
\<close>

theorem maccommand_Handle_power_nack_max:
  assumes "CID block = LinkADRAns"
    and "map Payload (MACCommands block) = [LinkADRAnsPL ans]"
    and "map Payload (MACCommands pending) = [LinkADRReqPL req]"
    and "\<not> PowerACK ans" and "TXPowerIndex ds = k" and "0 < k"
  shows "maccommand_Handle others ds block (Some pending)
           = (Inr [], ds\<lparr> MaxSupportedTXPowerIndex := k - 1 \<rparr>)
       \<and> MaxSupportedTXPowerIndex (snd (maccommand_Handle others ds block (Some pending))) = k - 1
       \<and> TXPowerIndex (snd (maccommand_Handle others ds block (Some pending))) = k"
  using assms by (simp add: maccommand_Handle_def linkADRAns_def)

text \<open>
  An instance: the session of the test moved to TXPowerIndex 3, the pending request and
  the answer of case 2; the maximum becomes 2 and the index stays 3.
\<close>

theorem maccommand_Handle_power_nack_max_witness:
  "maccommand_Handle testOthers (testSession\<lparr> TXPowerIndex := 3 \<rparr>)
      (testBlock LinkADRAns (LinkADRAnsPL (testLinkADRAns False)))
      (Some (testBlock LinkADRReq (LinkADRReqPL (testLinkADRReq 3))))
    = (Inr [], testSession\<lparr> TXPowerIndex := 3, MaxSupportedTXPowerIndex := 2 \<rparr>)"
  using maccommand_Handle_power_nack_max
    [of "testBlock LinkADRAns (LinkADRAnsPL (testLinkADRAns False))" "testLinkADRAns False"
      "testBlock LinkADRReq (LinkADRReqPL (testLinkADRReq 3))" "testLinkADRReq 3"
      "testSession\<lparr> TXPowerIndex := 3 \<rparr>" 3 testOthers]
  by (simp add: test_defs)

text \<open>
  C4 as stated fails on case 2 of the test: the session is at TXPowerIndex 0, PowerACK is
  false, the pending TXPower is 3, and the session keeps TXPowerIndex 0 and
  MinSupportedTXPowerIndex 0 (the test expects only MaxSupportedTXPowerIndex 2).
\<close>

theorem maccommand_Handle_power_nack_min_counterexample:
  "TXPowerIndex testSession = 0
   \<and> \<not> PowerACK (testLinkADRAns False)
   \<and> maccommand_Handle testOthers testSession
          (testBlock LinkADRAns (LinkADRAnsPL (testLinkADRAns False)))
          (Some (testBlock LinkADRReq (LinkADRReqPL (testLinkADRReq 3))))
       = (Inr [], testSession\<lparr> MaxSupportedTXPowerIndex := 2 \<rparr>)
   \<and> TXPowerIndex
       (snd (maccommand_Handle testOthers testSession
          (testBlock LinkADRAns (LinkADRAnsPL (testLinkADRAns False)))
          (Some (testBlock LinkADRReq (LinkADRReqPL (testLinkADRReq 3)))))) = 0
   \<and> MinSupportedTXPowerIndex
       (snd (maccommand_Handle testOthers testSession
          (testBlock LinkADRAns (LinkADRAnsPL (testLinkADRAns False)))
          (Some (testBlock LinkADRReq (LinkADRReqPL (testLinkADRReq 3)))))) = 0"
  by (simp add: maccommand_Handle_def linkADRAns_def test_defs)

text \<open>
  C4, amended. For every device session whose TXPowerIndex is 0, a pending block holding
  a \<open>LinkADRReq\<close> whose TXPower is 0 and an incoming \<open>LinkADRAns\<close> whose PowerACK is
  false, \<open>Handle\<close> returns no error and leaves the session with TXPowerIndex 1 and
  MinSupportedTXPowerIndex 1.
\<close>

theorem maccommand_Handle_power_nack_min:
  assumes "CID block = LinkADRAns"
    and "map Payload (MACCommands block) = [LinkADRAnsPL ans]"
    and "map Payload (MACCommands pending) = [LinkADRReqPL req]"
    and "\<not> PowerACK ans" and "TXPowerIndex ds = 0" and "TXPower req = 0"
  shows "maccommand_Handle others ds block (Some pending)
           = (Inr [], ds\<lparr> TXPowerIndex := 1, MinSupportedTXPowerIndex := 1 \<rparr>)"
  using assms by (simp add: maccommand_Handle_def linkADRAns_def)

text \<open>The instance in the test (case 3 of \<open>LinkADRAns\<close>, scenario S3): pending TXPower 0.\<close>

theorem maccommand_Handle_power_nack_min_witness:
  "maccommand_Handle testOthers testSession
      (testBlock LinkADRAns (LinkADRAnsPL (testLinkADRAns False)))
      (Some (testBlock LinkADRReq (LinkADRReqPL (testLinkADRReq 0))))
    = (Inr [], testSession\<lparr> TXPowerIndex := 1, MinSupportedTXPowerIndex := 1 \<rparr>)"
  using maccommand_Handle_power_nack_min
    [of "testBlock LinkADRAns (LinkADRAnsPL (testLinkADRAns False))" "testLinkADRAns False"
      "testBlock LinkADRReq (LinkADRReqPL (testLinkADRReq 0))" "testLinkADRReq 0"
      testSession testOthers]
  by (simp add: test_defs)

text \<open>
  C5. For every device session with a pending block holding a \<open>PingSlotChannelReq\<close>,
  \<open>Handle\<close> on a \<open>PingSlotChannelAns\<close> with DataRateOK and ChannelFrequencyOK both true sets
  PingSlotFrequency and PingSlotDR to the Frequency and DR of the pending request; if
  either bit is false, the session is left entirely unchanged.
\<close>

theorem maccommand_Handle_PingSlotChannelAns:
  assumes "CID block = PingSlotChannelAns"
    and "map Payload (MACCommands block) = [PingSlotChannelAnsPL ans]"
    and "map Payload (MACCommands pending) = [PingSlotChannelReqPL req]"
  shows "maccommand_Handle others ds block (Some pending) =
           (Inr [],
            if DataRateOK ans \<and> ChannelFrequencyOK ans
            then ds\<lparr> PingSlotFrequency := int (ps_Frequency req), PingSlotDR := int (ps_DR req) \<rparr>
            else ds)"
  using assms by (simp add: maccommand_Handle_def pingSlotChannelAns_def)

text \<open>
  The instances of C5 in the test (cases 1 and 2 of \<open>PingSlotChannelAns\<close>, scenario S5):
  868.3 MHz and DR 4 are adopted on two set bits, nothing on DataRateOK false.
\<close>

theorem maccommand_Handle_PingSlotChannelAns_witness:
  "maccommand_Handle testOthers testPingSession
      (testBlock PingSlotChannelAns
         (PingSlotChannelAnsPL \<lparr> DataRateOK = True, ChannelFrequencyOK = True \<rparr>))
      (Some (testBlock PingSlotChannelReq
         (PingSlotChannelReqPL \<lparr> ps_Frequency = 868300000, ps_DR = 4 \<rparr>)))
    = (Inr [], testPingSession\<lparr> PingSlotFrequency := 868300000, PingSlotDR := 4 \<rparr>)
   \<and> maccommand_Handle testOthers testPingSession
      (testBlock PingSlotChannelAns
         (PingSlotChannelAnsPL \<lparr> DataRateOK = False, ChannelFrequencyOK = True \<rparr>))
      (Some (testBlock PingSlotChannelReq
         (PingSlotChannelReqPL \<lparr> ps_Frequency = 8683000, ps_DR = 4 \<rparr>)))
    = (Inr [], testPingSession)"
  using maccommand_Handle_PingSlotChannelAns
      [of "testBlock PingSlotChannelAns
         (PingSlotChannelAnsPL \<lparr> DataRateOK = True, ChannelFrequencyOK = True \<rparr>)"
       "\<lparr> DataRateOK = True, ChannelFrequencyOK = True \<rparr>"
       "testBlock PingSlotChannelReq
         (PingSlotChannelReqPL \<lparr> ps_Frequency = 868300000, ps_DR = 4 \<rparr>)"
       "\<lparr> ps_Frequency = 868300000, ps_DR = 4 \<rparr>" testOthers testPingSession]
    maccommand_Handle_PingSlotChannelAns
      [of "testBlock PingSlotChannelAns
         (PingSlotChannelAnsPL \<lparr> DataRateOK = False, ChannelFrequencyOK = True \<rparr>)"
       "\<lparr> DataRateOK = False, ChannelFrequencyOK = True \<rparr>"
       "testBlock PingSlotChannelReq
         (PingSlotChannelReqPL \<lparr> ps_Frequency = 8683000, ps_DR = 4 \<rparr>)"
       "\<lparr> ps_Frequency = 8683000, ps_DR = 4 \<rparr>" testOthers testPingSession]
  by (simp add: testBlock_def)

section \<open>Theorems: the join-accept downlink handler\<close>

subsection \<open>The tasks one by one\<close>

lemma foldl_rxinfo:
  "foldl (\<lambda>c' r. c'\<lparr>DeviceGatewayRXInfo := DeviceGatewayRXInfo c' @ [g r]\<rparr>) c rs
     = c\<lparr>DeviceGatewayRXInfo := DeviceGatewayRXInfo c @ map g rs\<rparr>"
  by (induction rs arbitrary: c) simp_all

lemma setDeviceGatewayRXInfo_eq:
  "setDeviceGatewayRXInfo E c w =
     (if DeviceGatewayRXInfo c = [] \<and> RXInfoSet (jc_RXPacket c) = []
      then Some (Err (New ''DeviceGatewayRXInfo is empty!'')) else None,
      c\<lparr>DeviceGatewayRXInfo := DeviceGatewayRXInfo c @ map (rxInfoOf E) (RXInfoSet (jc_RXPacket c))\<rparr>,
      w)"
  unfolding setDeviceGatewayRXInfo_def rxInfoOf_def foldl_rxinfo
  by (simp add: Let_def)

lemma rx1_cases:
  "setTXInfoForRX1 E V c = (r, c') \<Longrightarrow>
     (r = Some IndexOutOfRange \<and> DeviceGatewayRXInfo c = [] \<and> c' = c)
   \<or> (\<exists>e. r = Some (Err e) \<and> c' = c)
   \<or> (r = None \<and> (\<exists>t freq. c' = c\<lparr>DownlinkFrames := DownlinkFrames c @
          [\<lparr> PhyPayload = [], TxInfo = Some t, Token = 0, DownlinkId = [] \<rparr>]\<rparr>
        \<and> GetRX1FrequencyForUplinkFrequency E (uint (up_Frequency (TXInfo (jc_RXPacket c)))) = Inr freq
        \<and> Frequency t = word_of_int freq
        \<and> Power t = txPower E V t
        \<and> Timing t = DELAY
        \<and> TimingInfo t = DelayTimingInfo (DurationProto (JoinAcceptDelay1 E))))"
  unfolding setTXInfoForRX1_def
  by (auto simp: Let_def txPower_def split: list.splits sum.splits)

lemma rx2_cases:
  assumes "setTXInfoForRX2 E V c = (r, c')"
  shows "(r = Some IndexOutOfRange \<and> DeviceGatewayRXInfo c = [] \<and> c' = c)
   \<or> (\<exists>e. r = Some (Err e) \<and> c' = c)
   \<or> (r = None \<and> (\<exists>t. c' = c\<lparr>DownlinkFrames := DownlinkFrames c @
          [\<lparr> PhyPayload = [], TxInfo = Some t, Token = 0, DownlinkId = [] \<rparr>]\<rparr>
        \<and> ((\<forall>t0 dr t1. SetDownlinkTXInfoDataRate E t0 dr = Inr t1 \<longrightarrow> Frequency t1 = Frequency t0)
              \<longrightarrow> Frequency t = word_of_int (RX2Frequency E))
        \<and> Power t = txPower E V t
        \<and> Timing t = DELAY
        \<and> TimingInfo t = DelayTimingInfo (DurationProto (JoinAcceptDelay2 E))))"
  using assms unfolding setTXInfoForRX2_def
  by (auto simp: Let_def txPower_def split: list.splits sum.splits)

lemma setTXInfo_world: "setTXInfo E V c w = (r, c', w') \<Longrightarrow> w' = w"
  unfolding setTXInfo_def by (auto split: prod.splits option.splits if_splits)


lemma rx1_ok:
  assumes "setTXInfoForRX1 E V c = (None, c')"
  shows "\<exists>t. c' = c\<lparr>DownlinkFrames := DownlinkFrames c @ [candidate t]\<rparr> \<and> isRX1 E V (jc_RXPacket c) t"
  using rx1_cases [OF assms] unfolding candidate_def isRX1_def by auto

lemma rx2_ok:
  assumes "setTXInfoForRX2 E V c = (None, c')"
  shows "\<exists>t. c' = c\<lparr>DownlinkFrames := DownlinkFrames c @ [candidate t]\<rparr> \<and> isRX2 E V t"
  using rx2_cases [OF assms] unfolding candidate_def isRX2_def by auto

lemma setTXInfo_ok:
  assumes "setTXInfo E V c w = (None, c2, w2)"
  shows "\<exists>rx1 rx2. c2 = c\<lparr>DownlinkFrames := DownlinkFrames c @ map candidate (rx1 @ rx2)\<rparr>
           \<and> w2 = w
           \<and> length rx1 = (if rxWindow V = 0 \<or> rxWindow V = 1 then 1 else 0)
           \<and> length rx2 = (if rxWindow V = 0 \<or> rxWindow V = 2 then 1 else 0)
           \<and> (\<forall>t\<in>set rx1. isRX1 E V (jc_RXPacket c) t)
           \<and> (\<forall>t\<in>set rx2. isRX2 E V t)"
proof -
  obtain r1 c1 where s1:
    "(if rxWindow V = 0 \<or> rxWindow V = 1 then setTXInfoForRX1 E V c else (None, c)) = (r1, c1)"
    by (cases "if rxWindow V = 0 \<or> rxWindow V = 1 then setTXInfoForRX1 E V c else (None, c)")
  obtain r2 c2' where s2:
    "(if rxWindow V = 0 \<or> rxWindow V = 2 then setTXInfoForRX2 E V c1 else (None, c1)) = (r2, c2')"
    by (cases "if rxWindow V = 0 \<or> rxWindow V = 2 then setTXInfoForRX2 E V c1 else (None, c1)")
  from assms s1 s2 have r: "r1 = None" "r2 = None" "c2' = c2" "w2 = w"
    unfolding setTXInfo_def by (auto split: option.splits)
  have "\<exists>rx1. c1 = c\<lparr>DownlinkFrames := DownlinkFrames c @ map candidate rx1\<rparr>
           \<and> length rx1 = (if rxWindow V = 0 \<or> rxWindow V = 1 then 1 else 0)
           \<and> (\<forall>t\<in>set rx1. isRX1 E V (jc_RXPacket c) t)"
  proof (cases "rxWindow V = 0 \<or> rxWindow V = 1")
    case True
    with s1 r have "setTXInfoForRX1 E V c = (None, c1)" by simp
    from rx1_ok [OF this] obtain t where
      "c1 = c\<lparr>DownlinkFrames := DownlinkFrames c @ [candidate t]\<rparr>" "isRX1 E V (jc_RXPacket c) t"
      by blast
    with True show ?thesis by (intro exI [of _ "[t]"]) simp
  next
    case False
    with s1 have "c1 = c" by simp
    with False show ?thesis by (intro exI [of _ "[]"]) simp
  qed
  then obtain rx1 where a:
    "c1 = c\<lparr>DownlinkFrames := DownlinkFrames c @ map candidate rx1\<rparr>"
    "length rx1 = (if rxWindow V = 0 \<or> rxWindow V = 1 then 1 else 0)"
    "\<forall>t\<in>set rx1. isRX1 E V (jc_RXPacket c) t"
    by blast
  have "\<exists>rx2. c2 = c1\<lparr>DownlinkFrames := DownlinkFrames c1 @ map candidate rx2\<rparr>
           \<and> length rx2 = (if rxWindow V = 0 \<or> rxWindow V = 2 then 1 else 0)
           \<and> (\<forall>t\<in>set rx2. isRX2 E V t)"
  proof (cases "rxWindow V = 0 \<or> rxWindow V = 2")
    case True
    with s2 r have "setTXInfoForRX2 E V c1 = (None, c2)" by simp
    from rx2_ok [OF this] obtain t where
      "c2 = c1\<lparr>DownlinkFrames := DownlinkFrames c1 @ [candidate t]\<rparr>" "isRX2 E V t"
      by blast
    with True show ?thesis by (intro exI [of _ "[t]"]) simp
  next
    case False
    with s2 r have "c2 = c1" by simp
    with False show ?thesis by (intro exI [of _ "[]"]) simp
  qed
  then obtain rx2 where b:
    "c2 = c1\<lparr>DownlinkFrames := DownlinkFrames c1 @ map candidate rx2\<rparr>"
    "length rx2 = (if rxWindow V = 0 \<or> rxWindow V = 2 then 1 else 0)"
    "\<forall>t\<in>set rx2. isRX2 E V t"
    by blast
  from a(1) b(1) have "c2 = c\<lparr>DownlinkFrames := DownlinkFrames c @ map candidate (rx1 @ rx2)\<rparr>"
    by simp
  with a(2,3) b(2,3) r(4) show ?thesis by blast
qed


lemma setToken_ok:
  assumes "setToken c w = (None, c3, w3)"
  shows "\<exists>b0 b1. entropy w = b0 # b1 # entropy w3
           \<and> c3 = c\<lparr>DownlinkFrames :=
                 map (\<lambda>f. f\<lparr>Token := ucast (BigEndian_Uint16 [b0, b1]), DownlinkId := downID (ctx c)\<rparr>)
                   (DownlinkFrames c)\<rparr>"
proof -
  from assms have len: "\<not> length (entropy w) < 2"
    unfolding setToken_def rand_Read_def by (auto split: if_splits)
  then obtain b0 b1 rest where e: "entropy w = b0 # b1 # rest"
    by (cases "entropy w"; cases "tl (entropy w)") auto
  with assms show ?thesis
    unfolding setToken_def rand_Read_def by auto
qed

lemma setDownlinkFrame_ok:
  assumes "setDownlinkFrame E c w = (None, c4, w4)"
  shows "\<exists>phyB. MarshalBinary E (jc_PHYPayload c) = Inr phyB \<and> w4 = w
           \<and> c4 = c\<lparr>DownlinkFrames := map (\<lambda>f. f\<lparr>PhyPayload := phyB\<rparr>) (DownlinkFrames c)\<rparr>"
  using assms unfolding setDownlinkFrame_def by (auto split: sum.splits)

lemma sendJoinAcceptResponse_ctx:
  "sendJoinAcceptResponse E c w = (r, c5, w5) \<Longrightarrow> c5 = c \<and> entropy w5 = entropy w"
  unfolding sendJoinAcceptResponse_def
  by (auto simp: Let_def split: list.splits option.splits)

lemma saveRemainingFrames_ctx:
  "saveRemainingFrames E c w = (r, c6, w6) \<Longrightarrow> c6 = c \<and> entropy w6 = entropy w"
  unfolding saveRemainingFrames_def
  by (auto simp: Let_def split: if_splits option.splits)

lemma runTasks_Cons_None:
  assumes "runTasks (t # ts) c w = (None, c', w')"
  shows "\<exists>c1 w1. t c w = (None, c1, w1) \<and> runTasks ts c1 w1 = (None, c', w')"
  using assms by (auto split: prod.splits option.splits)

lemma join_Handle_ok:
  assumes "join_Handle E V w cv ds rx phy = (None, c', w')"
  shows "\<exists>rx1 rx2 b0 b1 phyB.
      RXInfoSet rx \<noteq> []
    \<and> DownlinkFrames c' =
        map (\<lambda>t. \<lparr> PhyPayload = phyB, TxInfo = Some t,
                   Token = ucast (BigEndian_Uint16 [b0, b1]), DownlinkId = downID cv \<rparr>)
            (rx1 @ rx2)
    \<and> entropy w = b0 # b1 # entropy w'
    \<and> MarshalBinary E phy = Inr phyB
    \<and> length rx1 = (if rxWindow V = 0 \<or> rxWindow V = 1 then 1 else 0)
    \<and> length rx2 = (if rxWindow V = 0 \<or> rxWindow V = 2 then 1 else 0)
    \<and> (\<forall>t\<in>set rx1. isRX1 E V rx t)
    \<and> (\<forall>t\<in>set rx2. isRX2 E V t)"
proof -
  let ?c0 = "\<lparr> ctx = cv, jc_Token = 0, jc_DeviceSession = ds, DeviceGatewayRXInfo = [],
        jc_RXPacket = rx, jc_PHYPayload = phy, DownlinkFrames = [] \<rparr>"
  from assms have run: "runTasks (tasks E V) ?c0 w = (None, c', w')"
    by (simp add: join_Handle_def)
  from runTasks_Cons_None [OF run [unfolded tasks_def]] obtain c1 w1 where
    t1: "setDeviceGatewayRXInfo E ?c0 w = (None, c1, w1)" and
    r1: "runTasks [setTXInfo E V, setToken, setDownlinkFrame E, sendJoinAcceptResponse E,
           saveRemainingFrames E] c1 w1 = (None, c', w')"
    by blast
  from t1 have ne: "RXInfoSet rx \<noteq> []" and w1: "w1 = w"
    and c1: "c1 = ?c0\<lparr>DeviceGatewayRXInfo := map (rxInfoOf E) (RXInfoSet rx)\<rparr>"
    by (auto simp: setDeviceGatewayRXInfo_eq split: if_splits)
  from runTasks_Cons_None [OF r1] obtain c2 w2 where
    t2: "setTXInfo E V c1 w1 = (None, c2, w2)" and
    r2: "runTasks [setToken, setDownlinkFrame E, sendJoinAcceptResponse E,
           saveRemainingFrames E] c2 w2 = (None, c', w')"
    by blast
  from setTXInfo_ok [OF t2] obtain rx1 rx2 where
    c2: "c2 = c1\<lparr>DownlinkFrames := DownlinkFrames c1 @ map candidate (rx1 @ rx2)\<rparr>" and
    w2: "w2 = w1" and
    l1: "length rx1 = (if rxWindow V = 0 \<or> rxWindow V = 1 then 1 else 0)" and
    l2: "length rx2 = (if rxWindow V = 0 \<or> rxWindow V = 2 then 1 else 0)" and
    p1: "\<forall>t\<in>set rx1. isRX1 E V (jc_RXPacket c1) t" and
    p2: "\<forall>t\<in>set rx2. isRX2 E V t"
    by blast
  from runTasks_Cons_None [OF r2] obtain c3 w3 where
    t3: "setToken c2 w2 = (None, c3, w3)" and
    r3: "runTasks [setDownlinkFrame E, sendJoinAcceptResponse E,
           saveRemainingFrames E] c3 w3 = (None, c', w')"
    by blast
  from setToken_ok [OF t3] obtain b0 b1 where
    e: "entropy w2 = b0 # b1 # entropy w3" and
    c3: "c3 = c2\<lparr>DownlinkFrames :=
                 map (\<lambda>f. f\<lparr>Token := ucast (BigEndian_Uint16 [b0, b1]), DownlinkId := downID (ctx c2)\<rparr>)
                   (DownlinkFrames c2)\<rparr>"
    by blast
  from runTasks_Cons_None [OF r3] obtain c4 w4 where
    t4: "setDownlinkFrame E c3 w3 = (None, c4, w4)" and
    r4: "runTasks [sendJoinAcceptResponse E, saveRemainingFrames E] c4 w4 = (None, c', w')"
    by blast
  from setDownlinkFrame_ok [OF t4] obtain phyB where
    m: "MarshalBinary E (jc_PHYPayload c3) = Inr phyB" and w4: "w4 = w3" and
    c4: "c4 = c3\<lparr>DownlinkFrames := map (\<lambda>f. f\<lparr>PhyPayload := phyB\<rparr>) (DownlinkFrames c3)\<rparr>"
    by blast
  from runTasks_Cons_None [OF r4] obtain c5 w5 where
    t5: "sendJoinAcceptResponse E c4 w4 = (None, c5, w5)" and
    r5: "runTasks [saveRemainingFrames E] c5 w5 = (None, c', w')"
    by blast
  from runTasks_Cons_None [OF r5] obtain c6 w6 where
    t6: "saveRemainingFrames E c5 w5 = (None, c6, w6)" and
    r6: "runTasks [] c6 w6 = (None, c', w')"
    by blast
  from r6 have "c6 = c'" "w6 = w'" by simp_all
  with sendJoinAcceptResponse_ctx [OF t5] saveRemainingFrames_ctx [OF t6]
  have fin: "c' = c4" "entropy w' = entropy w4" by simp_all
  have frames: "DownlinkFrames c' =
        map (\<lambda>t. \<lparr> PhyPayload = phyB, TxInfo = Some t,
                   Token = ucast (BigEndian_Uint16 [b0, b1]), DownlinkId = downID cv \<rparr>)
            (rx1 @ rx2)"
    unfolding fin c4 c3 c2 c1 by (simp add: candidate_def)
  have ent: "entropy w = b0 # b1 # entropy w'"
    using e fin w4 w2 w1 by simp
  have mar: "MarshalBinary E phy = Inr phyB"
    using m unfolding c3 c2 c1 by simp
  have p1': "\<forall>t\<in>set rx1. isRX1 E V rx t"
    using p1 unfolding c1 by simp
  from ne frames ent mar l1 l2 p1' p2 show ?thesis by blast
qed

subsection \<open>The whole pipeline\<close>

lemma sint32:
  "- 2147483648 \<le> x \<Longrightarrow> x < 2147483648 \<Longrightarrow> sint (word_of_int x :: 32 word) = x"
  by (simp add: sint_sbintrunc' signed_take_bit_int_eq_self)

lemma setTXInfo_in_bounds:
  assumes "DeviceGatewayRXInfo c \<noteq> []"
  shows "fst (setTXInfo E V c w) \<noteq> Some IndexOutOfRange"
proof -
  obtain r1 c1 where s1: "setTXInfoForRX1 E V c = (r1, c1)" by (cases "setTXInfoForRX1 E V c")
  from rx1_cases [OF s1] assms have a: "r1 \<noteq> Some IndexOutOfRange" "DeviceGatewayRXInfo c1 \<noteq> []"
    by auto
  obtain r2 c2 where s2: "setTXInfoForRX2 E V c1 = (r2, c2)" by (cases "setTXInfoForRX2 E V c1")
  from rx2_cases [OF s2] a(2) have b: "r2 \<noteq> Some IndexOutOfRange" by auto
  obtain r3 c3 where s3: "setTXInfoForRX2 E V c = (r3, c3)" by (cases "setTXInfoForRX2 E V c")
  from rx2_cases [OF s3] assms have d: "r3 \<noteq> Some IndexOutOfRange" by auto
  from s1 s2 s3 a b d show ?thesis
    unfolding setTXInfo_def by (auto split: option.splits)
qed

lemma later_tasks_in_bounds:
  "fst (runTasks [setToken, setDownlinkFrame E, sendJoinAcceptResponse E, saveRemainingFrames E] c w)
     \<noteq> Some IndexOutOfRange"
  by (auto simp: setToken_def rand_Read_def setDownlinkFrame_def sendJoinAcceptResponse_def
      saveRemainingFrames_def Let_def
      split: prod.splits option.splits sum.splits list.splits if_splits)

subsection \<open>The example run, evaluated\<close>

lemmas run_defs = exampleRun_def join_Handle_def join_Setup_def tasks_def exampleEnv_def
  exampleWorld_def exampleSession_def exampleRXPacket_def setDeviceGatewayRXInfo_def
  setTXInfo_def setTXInfoForRX1_def setTXInfoForRX2_def txPower_def setToken_def rand_Read_def
  setDownlinkFrame_def sendJoinAcceptResponse_def saveRemainingFrames_def downID_def
  BigEndian_Uint16_def Let_def

lemma exampleRun_collapse:
  assumes "fst (exampleRun rxw pw) = None"
  shows "join_Handle exampleEnv (join_Setup \<lparr> RXWindow = rxw, DownlinkTXPower = pw \<rparr>)
           exampleWorld (UUIDValue (replicate 16 9)) exampleSession exampleRXPacket undefined
         = (None, fst (snd (exampleRun rxw pw)), snd (snd (exampleRun rxw pw)))"
  using assms by (simp add: exampleRun_def prod_eq_iff)

lemma exampleRun_both_ok: "fst (exampleRun 0 (- 1)) = None"
  by (simp add: run_defs)

lemma exampleRun_power20_ok: "fst (exampleRun 0 20) = None"
  by (simp add: run_defs)

lemma exampleEnv_keeps_frequency:
  "\<forall>t0 dr t1. SetDownlinkTXInfoDataRate exampleEnv t0 dr = Inr t1 \<longrightarrow> Frequency t1 = Frequency t0"
  by (auto simp: exampleEnv_def)

subsection \<open>The claims\<close>

text \<open>
  C6 as stated fails: with both windows configured the run builds two candidates, draws
  two bytes of the random source once (12 34, leaving 56 78) and gives both candidates
  the token 0x1234 = 4660. Had each candidate its own draw, the second would carry
  0x5678 = 22136.
\<close>

theorem join_Handle_token_counterexample:
  "fst (exampleRun 0 (- 1)) = None
   \<and> map Token (DownlinkFrames (fst (snd (exampleRun 0 (- 1))))) = [4660, 4660]
   \<and> entropy exampleWorld = [18, 52, 86, 120]
   \<and> entropy (snd (snd (exampleRun 0 (- 1)))) = [86, 120]
   \<and> spec_freshTokens (entropy exampleWorld) 2 = [4660, 22136]
   \<and> map Token (DownlinkFrames (fst (snd (exampleRun 0 (- 1)))))
       \<noteq> spec_freshTokens (entropy exampleWorld) 2"
  by (simp add: run_defs spec_freshTokens_def upt_conv_Cons)

text \<open>
  C6, amended. For every join-accept downlink that \<open>Handle\<close> builds without error, one
  16-bit token is drawn (two bytes of the random source, big-endian), every candidate
  frame in DownlinkFrames carries that same token, and every candidate's downlink-id is
  the uplink context id when the context holds a UUID, and the zero UUID otherwise.
\<close>

theorem join_Handle_token:
  assumes "join_Handle E V w cv ds rx phy = (None, c', w')"
  shows "\<exists>b0 b1. entropy w = b0 # b1 # entropy w'
           \<and> (\<forall>f\<in>set (DownlinkFrames c').
                  Token f = ucast (BigEndian_Uint16 [b0, b1])
                \<and> uint (Token f) < 65536
                \<and> DownlinkId f = (case cv of UUIDValue u \<Rightarrow> u | _ \<Rightarrow> replicate 16 0))"
proof -
  from join_Handle_ok [OF assms] obtain rx1 rx2 b0 b1 phyB where
    f: "DownlinkFrames c' =
        map (\<lambda>t. \<lparr> PhyPayload = phyB, TxInfo = Some t,
                   Token = ucast (BigEndian_Uint16 [b0, b1]), DownlinkId = downID cv \<rparr>)
            (rx1 @ rx2)" and
    e: "entropy w = b0 # b1 # entropy w'"
    by blast
  have "uint (ucast (BigEndian_Uint16 [b0, b1]) :: 32 word) < 65536"
    using uint_bounded [of "BigEndian_Uint16 [b0, b1]"] by (simp add: uint_up_ucast is_up)
  with f e show ?thesis
    by (auto simp: downID_def)
qed

text \<open>The example run: both candidates carry 4660 and the context id of sixteen bytes 9.\<close>

theorem join_Handle_token_witness:
  "fst (exampleRun 0 (- 1)) = None
   \<and> map Token (DownlinkFrames (fst (snd (exampleRun 0 (- 1))))) = [4660, 4660]
   \<and> map DownlinkId (DownlinkFrames (fst (snd (exampleRun 0 (- 1)))))
       = [replicate 16 9, replicate 16 9]
   \<and> entropy exampleWorld = [18, 52] @ entropy (snd (snd (exampleRun 0 (- 1))))"
  using join_Handle_token [OF exampleRun_collapse [OF exampleRun_both_ok]]
  by (simp add: run_defs)

text \<open>
  C7. For every join-accept downlink that \<open>Handle\<close> builds without error, the candidate
  list holds an RX1 frame exactly when the configured RXWindow is 0 or 1 and an RX2 frame
  exactly when it is 0 or 2, RX1 before RX2. The timing of the RX1 candidate is DELAY by
  JoinAcceptDelay1 (and its frequency the band plan's RX1 frequency for the uplink
  frequency); the timing of the RX2 candidate is DELAY by JoinAcceptDelay2 and its
  frequency is the band plan's default RX2Frequency. The helper
  \<open>SetDownlinkTXInfoDataRate\<close>, which runs after the RX2 frequency is set, is taken to
  leave the frequency alone.
\<close>

theorem join_Handle_candidates:
  assumes "join_Handle E V w cv ds rx phy = (None, c', w')"
    and "\<forall>t0 dr t1. SetDownlinkTXInfoDataRate E t0 dr = Inr t1 \<longrightarrow> Frequency t1 = Frequency t0"
  shows "\<exists>rx1 rx2.
      map TxInfo (DownlinkFrames c') = map Some (rx1 @ rx2)
    \<and> length rx1 = (if rxWindow V = 0 \<or> rxWindow V = 1 then 1 else 0)
    \<and> length rx2 = (if rxWindow V = 0 \<or> rxWindow V = 2 then 1 else 0)
    \<and> (\<forall>t\<in>set rx1.
          Timing t = DELAY
        \<and> TimingInfo t = DelayTimingInfo (DurationProto (JoinAcceptDelay1 E))
        \<and> (\<exists>freq. GetRX1FrequencyForUplinkFrequency E (uint (up_Frequency (TXInfo rx))) = Inr freq
               \<and> Frequency t = word_of_int freq))
    \<and> (\<forall>t\<in>set rx2.
          Timing t = DELAY
        \<and> TimingInfo t = DelayTimingInfo (DurationProto (JoinAcceptDelay2 E))
        \<and> Frequency t = word_of_int (RX2Frequency E))"
proof -
  from join_Handle_ok [OF assms(1)] obtain rx1 rx2 b0 b1 phyB where
    f: "DownlinkFrames c' =
        map (\<lambda>t. \<lparr> PhyPayload = phyB, TxInfo = Some t,
                   Token = ucast (BigEndian_Uint16 [b0, b1]), DownlinkId = downID cv \<rparr>)
            (rx1 @ rx2)" and
    l1: "length rx1 = (if rxWindow V = 0 \<or> rxWindow V = 1 then 1 else 0)" and
    l2: "length rx2 = (if rxWindow V = 0 \<or> rxWindow V = 2 then 1 else 0)" and
    p1: "\<forall>t\<in>set rx1. isRX1 E V rx t" and
    p2: "\<forall>t\<in>set rx2. isRX2 E V t"
    by blast
  from f have m: "map TxInfo (DownlinkFrames c') = map Some (rx1 @ rx2)"
    by (simp add: comp_def)
  from p1 have q1: "\<forall>t\<in>set rx1.
          Timing t = DELAY
        \<and> TimingInfo t = DelayTimingInfo (DurationProto (JoinAcceptDelay1 E))
        \<and> (\<exists>freq. GetRX1FrequencyForUplinkFrequency E (uint (up_Frequency (TXInfo rx))) = Inr freq
               \<and> Frequency t = word_of_int freq)"
    by (simp add: isRX1_def)
  from p2 assms(2) have q2: "\<forall>t\<in>set rx2.
          Timing t = DELAY
        \<and> TimingInfo t = DelayTimingInfo (DurationProto (JoinAcceptDelay2 E))
        \<and> Frequency t = word_of_int (RX2Frequency E)"
    by (simp add: isRX2_def)
  from m l1 l2 q1 q2 show ?thesis by blast
qed

text \<open>
  The example run with both windows: two candidates, both DELAY, by 5 s and then by 6 s,
  on 868.1 MHz and then on 869.525 MHz.
\<close>

theorem join_Handle_candidates_witness:
  "fst (exampleRun 0 (- 1)) = None
   \<and> map (map_option Timing) (map TxInfo (DownlinkFrames (fst (snd (exampleRun 0 (- 1))))))
       = [Some DELAY, Some DELAY]
   \<and> map (map_option TimingInfo) (map TxInfo (DownlinkFrames (fst (snd (exampleRun 0 (- 1))))))
       = [Some (DelayTimingInfo (DurationProto 5000000000)),
          Some (DelayTimingInfo (DurationProto 6000000000))]
   \<and> map (map_option Frequency) (map TxInfo (DownlinkFrames (fst (snd (exampleRun 0 (- 1))))))
       = [Some 868100000, Some 869525000]"
  using join_Handle_candidates
    [OF exampleRun_collapse [OF exampleRun_both_ok] exampleEnv_keeps_frequency]
  by (simp add: run_defs)

text \<open>
  C8 as stated fails: with DownlinkTXPower configured as \<open>-2\<close>, which is not \<open>\<ge> 0\<close>,
  both candidates carry the power \<open>-2\<close>, not the band plan's default, which is 14 for
  both frequencies.
\<close>

theorem join_Handle_power_counterexample:
  "fst (exampleRun 0 (- 2)) = None
   \<and> \<not> (0::int) \<le> - 2
   \<and> map (map_option (sint \<circ> Power))
        (map TxInfo (DownlinkFrames (fst (snd (exampleRun 0 (- 2))))))
       = [Some (- 2), Some (- 2)]
   \<and> map (map_option (GetDownlinkTXPower exampleEnv \<circ> uint \<circ> Frequency))
        (map TxInfo (DownlinkFrames (fst (snd (exampleRun 0 (- 2))))))
       = [Some 14, Some 14]"
  by (simp add: run_defs)

text \<open>
  C8, amended. For every downlink candidate (RX1 or RX2) that the join handler builds,
  the TX power is the configured DownlinkTXPower (converted to \<open>int32\<close>, so the value
  itself when it fits 32 bits) whenever that configured value is not \<open>-1\<close>, and otherwise
  the band plan's default downlink TX power for the candidate's frequency.
\<close>

theorem join_Handle_power:
  assumes "join_Handle E V w cv ds rx phy = (None, c', w')"
  shows "\<forall>f\<in>set (DownlinkFrames c'). \<exists>t. TxInfo f = Some t
           \<and> (downlinkTXPower V \<noteq> - 1 \<longrightarrow> Power t = word_of_int (downlinkTXPower V))
           \<and> (downlinkTXPower V \<noteq> - 1 \<and> - 2147483648 \<le> downlinkTXPower V
                 \<and> downlinkTXPower V < 2147483648 \<longrightarrow> sint (Power t) = downlinkTXPower V)
           \<and> (downlinkTXPower V = - 1 \<longrightarrow>
                 Power t = word_of_int (GetDownlinkTXPower E (uint (Frequency t))))"
proof -
  from join_Handle_ok [OF assms] obtain rx1 rx2 b0 b1 phyB where
    f: "DownlinkFrames c' =
        map (\<lambda>t. \<lparr> PhyPayload = phyB, TxInfo = Some t,
                   Token = ucast (BigEndian_Uint16 [b0, b1]), DownlinkId = downID cv \<rparr>)
            (rx1 @ rx2)" and
    p1: "\<forall>t\<in>set rx1. isRX1 E V rx t" and
    p2: "\<forall>t\<in>set rx2. isRX2 E V t"
    by blast
  have pw: "Power t = txPower E V t" if "t \<in> set (rx1 @ rx2)" for t
    using that p1 p2 by (auto simp: isRX1_def isRX2_def)
  show ?thesis
  proof
    fix fr assume "fr \<in> set (DownlinkFrames c')"
    then have "fr \<in> (\<lambda>t. \<lparr> PhyPayload = phyB, TxInfo = Some t,
                   Token = ucast (BigEndian_Uint16 [b0, b1]), DownlinkId = downID cv \<rparr>)
                ` set (rx1 @ rx2)"
      unfolding f by (simp only: set_map)
    then obtain t where t0: "t \<in> set (rx1 @ rx2)" "fr = \<lparr> PhyPayload = phyB, TxInfo = Some t,
                   Token = ucast (BigEndian_Uint16 [b0, b1]), DownlinkId = downID cv \<rparr>"
      by blast
    then have t: "t \<in> set (rx1 @ rx2)" "TxInfo fr = Some t" by simp_all
    from pw [OF t(1)] have "Power t = txPower E V t" .
    with t(2) show "\<exists>t. TxInfo fr = Some t
           \<and> (downlinkTXPower V \<noteq> - 1 \<longrightarrow> Power t = word_of_int (downlinkTXPower V))
           \<and> (downlinkTXPower V \<noteq> - 1 \<and> - 2147483648 \<le> downlinkTXPower V
                 \<and> downlinkTXPower V < 2147483648 \<longrightarrow> sint (Power t) = downlinkTXPower V)
           \<and> (downlinkTXPower V = - 1 \<longrightarrow>
                 Power t = word_of_int (GetDownlinkTXPower E (uint (Frequency t))))"
      by (auto simp: txPower_def sint32)
  qed
qed

text \<open>
  The example run with 20 dBm configured (both candidates carry 20) and with \<open>-1\<close>
  configured (both carry the band plan's 14).
\<close>

theorem join_Handle_power_witness:
  "fst (exampleRun 0 20) = None
   \<and> map (map_option (sint \<circ> Power))
        (map TxInfo (DownlinkFrames (fst (snd (exampleRun 0 20)))))
       = [Some 20, Some 20]
   \<and> fst (exampleRun 0 (- 1)) = None
   \<and> map (map_option (sint \<circ> Power))
        (map TxInfo (DownlinkFrames (fst (snd (exampleRun 0 (- 1))))))
       = [Some 14, Some 14]"
  using join_Handle_power [OF exampleRun_collapse [OF exampleRun_power20_ok]]
    join_Handle_power [OF exampleRun_collapse [OF exampleRun_both_ok]]
  by (simp add: run_defs)

text \<open>
  C10. For every call of the join-accept \<open>Handle\<close> with an RXPacket whose RXInfoSet is
  empty, the first task returns an error, so \<open>Handle\<close> returns that error with no
  downlink frame constructed and the world untouched (nothing is handed to the gateway
  backend). When RXInfoSet is not empty, the index \<open>DeviceGatewayRXInfo[0]\<close> read by
  \<open>setTXInfoForRX1\<close> and \<open>setTXInfoForRX2\<close> is in bounds: \<open>Handle\<close> never stops on an
  index out of range.
\<close>

theorem join_Handle_RXInfoSet:
  "(RXInfoSet rx = [] \<longrightarrow>
      join_Handle E V w cv ds rx phy =
        (Some (Err (New ''DeviceGatewayRXInfo is empty!'')),
         \<lparr> ctx = cv, jc_Token = 0, jc_DeviceSession = ds, DeviceGatewayRXInfo = [],
           jc_RXPacket = rx, jc_PHYPayload = phy, DownlinkFrames = [] \<rparr>,
         w))
 \<and> (RXInfoSet rx \<noteq> [] \<longrightarrow> fst (join_Handle E V w cv ds rx phy) \<noteq> Some IndexOutOfRange)"
proof (intro conjI impI)
  assume "RXInfoSet rx = []"
  then show "join_Handle E V w cv ds rx phy =
        (Some (Err (New ''DeviceGatewayRXInfo is empty!'')),
         \<lparr> ctx = cv, jc_Token = 0, jc_DeviceSession = ds, DeviceGatewayRXInfo = [],
           jc_RXPacket = rx, jc_PHYPayload = phy, DownlinkFrames = [] \<rparr>,
         w)"
    by (simp add: join_Handle_def tasks_def setDeviceGatewayRXInfo_eq)
next
  assume ne: "RXInfoSet rx \<noteq> []"
  let ?c1 = "\<lparr> ctx = cv, jc_Token = 0, jc_DeviceSession = ds,
      DeviceGatewayRXInfo = map (rxInfoOf E) (RXInfoSet rx),
      jc_RXPacket = rx, jc_PHYPayload = phy, DownlinkFrames = [] \<rparr>"
  obtain r2 c2 w2 where s2: "setTXInfo E V ?c1 w = (r2, c2, w2)"
    by (cases "setTXInfo E V ?c1 w")
  from ne have "DeviceGatewayRXInfo ?c1 \<noteq> []" by simp
  from setTXInfo_in_bounds [OF this, of E V w] s2 have r2: "r2 \<noteq> Some IndexOutOfRange" by simp
  from ne s2 r2 later_tasks_in_bounds [of E c2 w2]
  show "fst (join_Handle E V w cv ds rx phy) \<noteq> Some IndexOutOfRange"
    by (auto simp: join_Handle_def tasks_def setDeviceGatewayRXInfo_eq split: option.splits)
qed

text \<open>
  The example packet with its RX-info set emptied (the error, no frame, the world as it
  was) and as it is (the run ends with no fault, one frame handed to the gateway
  backend).
\<close>

theorem join_Handle_RXInfoSet_witness:
  "RXInfoSet (exampleRXPacket\<lparr> RXInfoSet := [] \<rparr>) = []
   \<and> fst (join_Handle exampleEnv (join_Setup \<lparr> RXWindow = 0, DownlinkTXPower = - 1 \<rparr>)
            exampleWorld NoValue exampleSession (exampleRXPacket\<lparr> RXInfoSet := [] \<rparr>) undefined)
       = Some (Err (New ''DeviceGatewayRXInfo is empty!''))
   \<and> DownlinkFrames (fst (snd (join_Handle exampleEnv
            (join_Setup \<lparr> RXWindow = 0, DownlinkTXPower = - 1 \<rparr>)
            exampleWorld NoValue exampleSession (exampleRXPacket\<lparr> RXInfoSet := [] \<rparr>) undefined)))
       = []
   \<and> snd (snd (join_Handle exampleEnv (join_Setup \<lparr> RXWindow = 0, DownlinkTXPower = - 1 \<rparr>)
            exampleWorld NoValue exampleSession (exampleRXPacket\<lparr> RXInfoSet := [] \<rparr>) undefined))
       = exampleWorld
   \<and> RXInfoSet exampleRXPacket \<noteq> []
   \<and> fst (join_Handle exampleEnv (join_Setup \<lparr> RXWindow = 0, DownlinkTXPower = - 1 \<rparr>)
            exampleWorld (UUIDValue (replicate 16 9)) exampleSession exampleRXPacket undefined)
       \<noteq> Some IndexOutOfRange"
  using join_Handle_RXInfoSet
      [of "exampleRXPacket\<lparr> RXInfoSet := [] \<rparr>" exampleEnv
        "join_Setup \<lparr> RXWindow = 0, DownlinkTXPower = - 1 \<rparr>" exampleWorld NoValue
        exampleSession undefined]
    join_Handle_RXInfoSet
      [of exampleRXPacket exampleEnv
        "join_Setup \<lparr> RXWindow = 0, DownlinkTXPower = - 1 \<rparr>" exampleWorld
        "UUIDValue (replicate 16 9)" exampleSession undefined]
  by (simp add: exampleRXPacket_def)


end
